theory Spec2Isabelle
  imports Main
begin

section \<open>Data model\<close>

text \<open>
  The cells of a column are Python values. The model has the integers (unbounded, as
  Python's), the strings and \<open>None\<close>; floating-point cells are left out.
\<close>

datatype scalar = PInt int | PStr string | PNone

text \<open>
  The exceptions the code raises or lets through. \<open>PanSchArgumentError\<close> is the
  repository's own configuration error, carrying its text (its module \<open>errors\<close> is not
  among the sources); \<open>UserException\<close> stands for whatever else a user-supplied
  function raises.
\<close>

datatype error =
    PanSchArgumentError string
  | TypeError
  | ValueError
  | AttributeError
  | KeyError
  | IndexError
  | UserException string

text \<open>
  The object handed to \<open>CanCallValidation\<close> or \<open>CanConvertValidation\<close>: a function, a
  type (whose call is its constructor), or a plain value that is not callable. The
  string is what \<open>str.format\<close> prints for the object. The value a call returns is never
  read by the code, so a call either returns or raises.
\<close>

datatype pyobject =
    Function string "scalar \<Rightarrow> error + unit"
  | Type string "scalar \<Rightarrow> error + unit"
  | Value scalar

text \<open>
  The number a cell denotes, and the bounds of a range: an integer, one of the two
  infinities (\<open>float('inf')\<close> and its negation, the defaults of the bounds), the missing
  number \<open>NaN\<close> that \<open>None\<close> denotes, or any other double, \<open>Float m e\<close> for
  \<open>m * 2 ^ e\<close>. The model never computes with a \<open>Float\<close>.
\<close>

datatype numeric = NaN | NegInf | Fin int | PosInf | Float int int

type_synonym row_key = int

text \<open>
  A pandas Series as the code reads it: its name, its index (one row key per cell) and
  its cells, in row order.
\<close>

record series =
  series_name :: string
  series_index :: "row_key list"
  series_values :: "scalar list"

text \<open>
  A Series has one row key per cell. The statements about rows take the keys to be
  distinct, so that \<open>series[i]\<close> is one cell.
\<close>

definition wf_series :: "series \<Rightarrow> bool" where
  "wf_series s \<longleftrightarrow>
     length (series_index s) = length (series_values s) \<and> distinct (series_index s)"

text \<open>
  Modelled from the spec: the \<open>Column\<close> class is not among the sources;
  \<open>get_errors\<close> reads only its \<open>allow_empty\<close> flag.
\<close>

record column =
  allow_empty :: bool

text \<open>
  The warning of \<open>validation_warning.py\<close>: the message (\<open>None\<close> when the rule has
  none), the failing cell, its row key and the name of the column.
\<close>

record ValidationWarning =
  wmessage :: "string option"
  wvalue :: scalar
  wrow :: "row_key option"
  wcolumn :: "string option"

text \<open>The two functions of the \<open>operator\<close> module that the combinators store.\<close>

datatype py_operator = operator_or | operator_and

text \<open>
  A mask is a boolean Series: a row key and a boolean for each of its rows, in row
  order.
\<close>

type_synonym mask = "(row_key \<times> bool) list"

text \<open>
  The rules that produce a mask. Each constructor holds the fields its class stores;
  the last field of a class that passes \<open>**kwargs\<close> on is \<open>_custom_message\<close>
  (\<open>None\<close> when no message was given).

  The classes whose mask comes from a regular expression, a list of options or
  \<open>strptime\<close> (\<open>MatchesPatternValidation\<close>, the two whitespace rules,
  \<open>InListValidation\<close>, \<open>DateFormatValidation\<close>) have no constructor of their own: for
  the combinators and for \<open>get_errors\<close> each of them is a function from the column to a
  mask, which is what \<open>CustomSeriesValidation\<close> holds.
\<close>

datatype validation =
    InverseValidation validation "string option"
  | CombinedValidation validation validation py_operator
  | CustomSeriesValidation "series \<Rightarrow> error + mask" "string option"
  | CustomElementValidation "scalar \<Rightarrow> error + bool" "string option"
  | InRangeValidation numeric numeric "string option"
  | CanCallValidation pyobject "string option"
  | CanConvertValidation pyobject "string option"

section \<open>pandas primitives\<close>

text \<open>
  What pandas does and the repository does not decide is a parameter of the model:
  \<^item> \<open>parse\<close>: the number a string denotes for \<open>pd.to_numeric\<close>, \<open>None\<close> where it
    denotes none;
  \<^item> \<open>inexact_in_range\<close>: whether a cell of a coerced column lies between two bounds
    when the comparison is made on doubles (the column is not one of 64-bit integers, or
    a bound is a double or a larger integer); its arguments are the numbers of the whole
    column, the two bounds and the number of the cell;
  \<^item> \<open>align\<close>: the result of \<open>&\<close> or \<open>|\<close> on two boolean Series whose indexes
    differ, which pandas aligns on their row keys first.
\<close>

record pandas =
  parse :: "string \<Rightarrow> numeric option"
  inexact_in_range :: "numeric list \<Rightarrow> numeric \<Rightarrow> numeric \<Rightarrow> numeric \<Rightarrow> bool"
  align :: "py_operator \<Rightarrow> mask \<Rightarrow> mask \<Rightarrow> error + mask"

text \<open>\<open>~\<close> on a boolean Series negates each row and keeps the index.\<close>

definition mask_not :: "mask \<Rightarrow> mask" where
  "mask_not m = map (\<lambda>kb. (fst kb, \<not> snd kb)) m"

text \<open>
  \<open>operator.or_\<close> and \<open>operator.and_\<close> on two boolean Series: when the two have the
  same index, the result has that index and combines the two booleans of each row;
  otherwise pandas aligns them.
\<close>

fun bool_operator :: "py_operator \<Rightarrow> bool \<Rightarrow> bool \<Rightarrow> bool" where
  "bool_operator operator_or x y = (x \<or> y)"
| "bool_operator operator_and x y = (x \<and> y)"

definition apply_operator :: "pandas \<Rightarrow> py_operator \<Rightarrow> mask \<Rightarrow> mask \<Rightarrow> error + mask" where
  "apply_operator pd operator a b =
     (if map fst a = map fst b
      then Inr (zip (map fst a) (map2 (bool_operator operator) (map snd a) (map snd b)))
      else align pd operator a b)"

text \<open>
  \<open>Series.apply\<close>: the function is called on each cell in row order; the first
  exception it raises ends the call. The result keeps the index of the column.
\<close>

fun series_apply :: "('a \<Rightarrow> error + 'b) \<Rightarrow> 'a list \<Rightarrow> error + 'b list" where
  "series_apply f [] = Inr []"
| "series_apply f (x # xs) =
     (case f x of
        Inl e \<Rightarrow> Inl e
      | Inr y \<Rightarrow> (case series_apply f xs of Inl e \<Rightarrow> Inl e | Inr ys \<Rightarrow> Inr (y # ys)))"

definition keyed :: "series \<Rightarrow> bool list \<Rightarrow> mask" where
  "keyed s bs = zip (series_index s) bs"

text \<open>
  \<open>pd.to_numeric\<close> with its default \<open>errors='raise'\<close>: the number each cell denotes.
  An integer denotes itself, \<open>None\<close> the missing number, a string what \<open>parse\<close> finds;
  a string that denotes no number raises. The dtype that pandas then gives the whole
  column decides how the numbers are compared, below.
\<close>

fun to_numeric_cell :: "(string \<Rightarrow> numeric option) \<Rightarrow> scalar \<Rightarrow> error + numeric" where
  "to_numeric_cell parse_string (PInt n) = Inr (Fin n)"
| "to_numeric_cell parse_string PNone = Inr NaN"
| "to_numeric_cell parse_string (PStr s) =
     (case parse_string s of None \<Rightarrow> Inl ValueError | Some x \<Rightarrow> Inr x)"

definition to_numeric :: "(string \<Rightarrow> numeric option) \<Rightarrow> scalar list \<Rightarrow> error + numeric list" where
  "to_numeric parse_string vs = series_apply (to_numeric_cell parse_string) vs"

text \<open>
  The comparisons \<open>series >= min\<close> and \<open>series < max\<close>. They are exact when the
  coerced column has dtype \<open>int64\<close>, that is when every cell denotes an integer of 64
  bits, and the bound is such an integer, an infinity or \<open>NaN\<close> (which compares false
  with everything). In every other case pandas compares doubles, and an integer beyond
  53 bits is rounded first: the model leaves that to \<open>inexact_in_range\<close>.
\<close>

definition is_int64 :: "int \<Rightarrow> bool" where
  "is_int64 n \<longleftrightarrow> - (2 ^ 63) \<le> n \<and> n < 2 ^ 63"

fun int64_ge :: "int \<Rightarrow> numeric \<Rightarrow> bool option" where
  "int64_ge n NaN = Some False"
| "int64_ge n NegInf = Some True"
| "int64_ge n PosInf = Some False"
| "int64_ge n (Fin b) = (if is_int64 b then Some (n \<ge> b) else None)"
| "int64_ge n (Float _ _) = None"

fun int64_lt :: "int \<Rightarrow> numeric \<Rightarrow> bool option" where
  "int64_lt n NaN = Some False"
| "int64_lt n NegInf = Some False"
| "int64_lt n PosInf = Some True"
| "int64_lt n (Fin b) = (if is_int64 b then Some (n < b) else None)"
| "int64_lt n (Float _ _) = None"

fun exact_in_range :: "numeric \<Rightarrow> numeric \<Rightarrow> numeric \<Rightarrow> bool option" where
  "exact_in_range minimum maximum (Fin n) =
     (if is_int64 n then
        (case int64_ge n minimum of
           None \<Rightarrow> None
         | Some ge \<Rightarrow>
             (case int64_lt n maximum of None \<Rightarrow> None | Some lt \<Rightarrow> Some (ge \<and> lt)))
      else None)"
| "exact_in_range minimum maximum _ = None"

definition in_range_values :: "pandas \<Rightarrow> numeric \<Rightarrow> numeric \<Rightarrow> numeric list \<Rightarrow> bool list" where
  "in_range_values pd minimum maximum ns =
     (case those (map (exact_in_range minimum maximum) ns) of
        Some bs \<Rightarrow> bs
      | None \<Rightarrow> map (inexact_in_range pd ns minimum maximum) ns)"

section \<open>The rules\<close>

text \<open>Calling an object: a plain value is not callable, and Python raises \<open>TypeError\<close>.\<close>

fun call :: "pyobject \<Rightarrow> scalar \<Rightarrow> error + unit" where
  "call (Function _ f) v = f v"
| "call (Type _ f) v = f v"
| "call (Value _) v = Inl TypeError"

text \<open>\<open>CanCallValidation.can_call\<close>: the bare \<open>except\<close> catches every exception.\<close>

definition can_call :: "pyobject \<Rightarrow> scalar \<Rightarrow> bool" where
  "can_call callable_obj var =
     (case call callable_obj var of Inr _ \<Rightarrow> True | Inl _ \<Rightarrow> False)"

text \<open>
  \<open>validate\<close> of each class. The two arguments of the stored operator are evaluated
  left to right, each to its end.
\<close>

fun validate :: "pandas \<Rightarrow> validation \<Rightarrow> series \<Rightarrow> error + mask" where
  "validate pd (InverseValidation negated _) s =
     (case validate pd negated s of Inl e \<Rightarrow> Inl e | Inr m \<Rightarrow> Inr (mask_not m))"
| "validate pd (CombinedValidation v_a v_b operator) s =
     (case validate pd v_a s of
        Inl e \<Rightarrow> Inl e
      | Inr a \<Rightarrow>
          (case validate pd v_b s of
             Inl e \<Rightarrow> Inl e
           | Inr b \<Rightarrow> apply_operator pd operator a b))"
| "validate pd (CustomSeriesValidation validation _) s = validation s"
| "validate pd (CustomElementValidation validation _) s =
     (case series_apply validation (series_values s) of
        Inl e \<Rightarrow> Inl e
      | Inr bs \<Rightarrow> Inr (keyed s bs))"
| "validate pd (InRangeValidation minimum maximum _) s =
     (case to_numeric (parse pd) (series_values s) of
        Inl e \<Rightarrow> Inl e
      | Inr ns \<Rightarrow> Inr (keyed s (in_range_values pd minimum maximum ns)))"
| "validate pd (CanCallValidation callable_obj _) s =
     (case series_apply (\<lambda>v. Inr (can_call callable_obj v)) (series_values s) of
        Inl e \<Rightarrow> Inl e
      | Inr bs \<Rightarrow> Inr (keyed s bs))"
| "validate pd (CanConvertValidation callable_obj _) s =
     (case series_apply (\<lambda>v. Inr (can_call callable_obj v)) (series_values s) of
        Inl e \<Rightarrow> Inl e
      | Inr bs \<Rightarrow> Inr (keyed s bs))"

text \<open>The operators \<open>~\<close>, \<open>|\<close> and \<open>&\<close> of \<open>SeriesValidation\<close>.\<close>

definition invert :: "validation \<Rightarrow> validation" where
  "invert self = InverseValidation self None"

definition validation_or :: "validation \<Rightarrow> validation \<Rightarrow> validation" where
  "validation_or self other = CombinedValidation self other operator_or"

definition validation_and :: "validation \<Rightarrow> validation \<Rightarrow> validation" where
  "validation_and self other = CombinedValidation self other operator_and"

section \<open>Messages\<close>

text \<open>What \<open>str.format\<close> prints for the values the messages are built from.\<close>

definition digit_char :: "nat \<Rightarrow> char" where
  "digit_char d = ''0123456789'' ! d"

fun decimal :: "nat \<Rightarrow> string" where
  "decimal n = (if 10 \<le> n then decimal (n div 10) @ [digit_char (n mod 10)] else [digit_char n])"

declare decimal.simps [simp del]

text \<open>Python's \<open>str\<close> of an integer.\<close>

definition str_of_int :: "int \<Rightarrow> string" where
  "str_of_int i = (if 0 \<le> i then decimal (nat i) else CHR ''-'' # decimal (nat (- i)))"

fun format_numeric :: "numeric \<Rightarrow> string" where
  "format_numeric NaN = ''nan''"
| "format_numeric NegInf = ''-inf''"
| "format_numeric (Fin i) = str_of_int i"
| "format_numeric PosInf = ''inf''"

fun format_scalar :: "scalar \<Rightarrow> string" where
  "format_scalar (PInt i) = str_of_int i"
| "format_scalar (PStr s) = s"
| "format_scalar PNone = ''None''"

fun format_object :: "pyobject \<Rightarrow> string" where
  "format_object (Function shown _) = shown"
| "format_object (Type shown _) = shown"
| "format_object (Value v) = format_scalar v"

text \<open>A message is a string, or \<open>None\<close> where the property returns nothing.\<close>

fun format_message :: "string option \<Rightarrow> string" where
  "format_message None = ''None''"
| "format_message (Some m) = m"

text \<open>
  The combinator formats the operator object it stores, and a built-in function prints
  as its description.
\<close>

fun format_operator :: "py_operator \<Rightarrow> string" where
  "format_operator operator_or = ''<built-in function or_>''"
| "format_operator operator_and = ''<built-in function and_>''"

text \<open>The field \<open>_custom_message\<close>; the combinator's constructor passes no message on.\<close>

fun custom_message :: "validation \<Rightarrow> string option" where
  "custom_message (InverseValidation _ m) = m"
| "custom_message (CombinedValidation _ _ _) = None"
| "custom_message (CustomSeriesValidation _ m) = m"
| "custom_message (CustomElementValidation _ m) = m"
| "custom_message (InRangeValidation _ _ m) = m"
| "custom_message (CanCallValidation _ m) = m"
| "custom_message (CanConvertValidation _ m) = m"

text \<open>
  Python's \<open>a or b\<close> on the stored message: \<open>None\<close> and the empty string are falsy, and
  then the value is \<open>b\<close>.
\<close>

definition py_or :: "string option \<Rightarrow> (error + string option) \<Rightarrow> error + string option" where
  "py_or a b = (case a of None \<Rightarrow> b | Some m \<Rightarrow> if m = [] then b else Inr (Some m))"

text \<open>
  The properties \<open>message\<close> and \<open>default_message\<close>. \<open>CustomSeriesValidation\<close> reads
  \<open>self.negated\<close>, an attribute it never sets; \<open>CustomElementValidation\<close> defines no
  default message and inherits the body of the base class, which returns \<open>None\<close>.
  Adding a string to \<open>None\<close> raises \<open>TypeError\<close>.
\<close>

fun message :: "validation \<Rightarrow> error + string option"
  and default_message :: "validation \<Rightarrow> error + string option" where
  "message self = py_or (custom_message self) (default_message self)"
| "default_message (InverseValidation negated _) =
     (case message negated of
        Inl e \<Rightarrow> Inl e
      | Inr None \<Rightarrow> Inl TypeError
      | Inr (Some m) \<Rightarrow> Inr (Some (m @ '' <negated>'')))"
| "default_message (CombinedValidation v_a v_b operator) =
     (case message v_a of
        Inl e \<Rightarrow> Inl e
      | Inr a \<Rightarrow>
          (case message v_b of
             Inl e \<Rightarrow> Inl e
           | Inr b \<Rightarrow>
               Inr (Some (''('' @ format_message a @ '') '' @ format_operator operator
                          @ '' ('' @ format_message b @ '')''))))"
| "default_message (CustomSeriesValidation _ _) = Inl AttributeError"
| "default_message (CustomElementValidation _ _) = Inr None"
| "default_message (InRangeValidation minimum maximum _) =
     Inr (Some (''was not in the range ['' @ format_numeric minimum @ '', ''
                @ format_numeric maximum @ '')''))"
| "default_message (CanCallValidation callable_obj _) =
     Inr (Some (''raised an exception when the callable '' @ format_object callable_obj
                @ '' was called on it''))"
| "default_message (CanConvertValidation callable_obj _) =
     Inr (Some (''cannot be converted to type '' @ format_object callable_obj))"

declare message.simps [simp del]

section \<open>Constructors\<close>

text \<open>The built-ins \<open>callable\<close>, \<open>isinstance(_, type)\<close> and the type \<open>type\<close> itself.\<close>

fun callable :: "pyobject \<Rightarrow> bool" where
  "callable (Function _ _) = True"
| "callable (Type _ _) = True"
| "callable (Value _) = False"

fun isinstance_type :: "pyobject \<Rightarrow> bool" where
  "isinstance_type (Type _ _) = True"
| "isinstance_type _ = False"

definition builtin_type :: pyobject where
  "builtin_type = Type (''<type '' @ [CHR 0x27] @ ''type'' @ [CHR 0x27] @ ''>'') (\<lambda>v. Inr ())"

text \<open>
  \<open>InRangeValidation.__init__\<close>: a bound that is not given is minus or plus infinity.
\<close>

definition InRangeValidation_init ::
  "numeric option \<Rightarrow> numeric option \<Rightarrow> string option \<Rightarrow> validation" where
  "InRangeValidation_init minimum maximum msg =
     InRangeValidation (case minimum of None \<Rightarrow> NegInf | Some x \<Rightarrow> x)
                       (case maximum of None \<Rightarrow> PosInf | Some x \<Rightarrow> x) msg"

text \<open>
  \<open>CanCallValidation.__init__\<close>. The test is \<open>callable(type)\<close>, on the built-in
  \<open>type\<close>, and the error message formats the same object.
\<close>

definition CanCallValidation_init :: "pyobject \<Rightarrow> string option \<Rightarrow> error + validation" where
  "CanCallValidation_init func msg =
     (if callable builtin_type then Inr (CanCallValidation func msg)
      else Inl (PanSchArgumentError
                  (''The object '' @ [CHR 0x22] @ format_object builtin_type @ [CHR 0x22]
                   @ '' passed to CanCallValidation is not callable!'')))"

text \<open>
  \<open>CanConvertValidation.__init__\<close> runs the constructor above on an object of its own
  class when the argument is a type.
\<close>

definition CanConvertValidation_init :: "pyobject \<Rightarrow> string option \<Rightarrow> error + validation" where
  "CanConvertValidation_init type_obj msg =
     (if isinstance_type type_obj then
        (case CanCallValidation_init type_obj msg of
           Inl e \<Rightarrow> Inl e
         | Inr _ \<Rightarrow> Inr (CanConvertValidation type_obj msg))
      else Inl (PanSchArgumentError (format_object type_obj @ '' is not a valid type'')))"

section \<open>The column evaluation engine\<close>

text \<open>
  \<open>series.unicode\<close> (line 87): a pandas Series has no attribute of that name (its
  string accessor is \<open>str\<close>), so reading it raises \<open>AttributeError\<close>, and the lengths
  that \<open>len()\<close> would return are never computed.
\<close>

definition unicode_len :: "series \<Rightarrow> error + nat option list" where
  "unicode_len s = Inl AttributeError"

fun gt_zero :: "nat option \<Rightarrow> bool" where
  "gt_zero None = False"
| "gt_zero (Some n) = (n > 0)"

text \<open>
  \<open>series.index[validated]\<close>: the booleans of the mask select row keys by position; a
  mask with another number of rows than the index raises \<open>IndexError\<close>.
\<close>

definition index_getitem :: "row_key list \<Rightarrow> mask \<Rightarrow> error + row_key list" where
  "index_getitem idx validated =
     (if length validated = length idx
      then Inr (map fst (filter snd (zip idx (map snd validated))))
      else Inl IndexError)"

text \<open>\<open>series[i]\<close>: the cell under the row key \<open>i\<close>.\<close>

definition series_getitem :: "series \<Rightarrow> row_key \<Rightarrow> error + scalar" where
  "series_getitem s i =
     (case map_of (zip (series_index s) (series_values s)) i of
        None \<Rightarrow> Inl KeyError
      | Some v \<Rightarrow> Inr v)"

text \<open>The loop of \<open>get_errors\<close> over the failing row keys, appending to \<open>errors\<close>.\<close>

fun append_errors ::
  "validation \<Rightarrow> series \<Rightarrow> ValidationWarning list \<Rightarrow> row_key list
   \<Rightarrow> error + ValidationWarning list" where
  "append_errors self s errors [] = Inr errors"
| "append_errors self s errors (i # indices) =
     (case series_getitem s i of
        Inl e \<Rightarrow> Inl e
      | Inr element \<Rightarrow>
          (case message self of
             Inl e \<Rightarrow> Inl e
           | Inr msg \<Rightarrow>
               append_errors self s
                 (errors @ [\<lparr>wmessage = msg, wvalue = element, wrow = Some i,
                             wcolumn = Some (series_name s)\<rparr>])
                 indices))"

text \<open>
  The mask of the rows to report: the negated mask of the rule, and on a column that
  allows empty cells its conjunction with \<open>series.unicode.len() > 0\<close>.
\<close>

definition validated_mask :: "pandas \<Rightarrow> series \<Rightarrow> column \<Rightarrow> mask \<Rightarrow> error + mask" where
  "validated_mask pd s col simple_validation =
     (if allow_empty col then
        (case unicode_len s of
           Inl e \<Rightarrow> Inl e
         | Inr lens \<Rightarrow>
             apply_operator pd operator_and (keyed s (map gt_zero lens)) simple_validation)
      else Inr simple_validation)"

definition get_errors ::
  "pandas \<Rightarrow> validation \<Rightarrow> series \<Rightarrow> column \<Rightarrow> error + ValidationWarning list" where
  "get_errors pd self s col =
     (case validate pd self s of
        Inl e \<Rightarrow> Inl e
      | Inr m \<Rightarrow>
          (case validated_mask pd s col (mask_not m) of
             Inl e \<Rightarrow> Inl e
           | Inr validated \<Rightarrow>
               (case index_getitem (series_index s) validated of
                  Inl e \<Rightarrow> Inl e
                | Inr indices \<Rightarrow> append_errors self s [] indices)))"

section \<open>Notions used in the statements\<close>

text \<open>The warning that \<open>get_errors\<close> builds for one row of a column.\<close>

definition mk_warning :: "string option \<Rightarrow> series \<Rightarrow> row_key \<times> scalar \<Rightarrow> ValidationWarning" where
  "mk_warning msg s kv = \<lparr>wmessage = msg, wvalue = snd kv, wrow = Some (fst kv),
                           wcolumn = Some (series_name s)\<rparr>"

text \<open>
  Whether every user function of a \<open>CustomSeriesValidation\<close> inside a rule returns,
  on the given column, a mask over the row keys of that column (or raises).
\<close>

fun series_functions_aligned :: "validation \<Rightarrow> series \<Rightarrow> bool" where
  "series_functions_aligned (InverseValidation negated _) s = series_functions_aligned negated s"
| "series_functions_aligned (CombinedValidation v_a v_b _) s =
     (series_functions_aligned v_a s \<and> series_functions_aligned v_b s)"
| "series_functions_aligned (CustomSeriesValidation validation _) s =
     (case validation s of Inl _ \<Rightarrow> True | Inr m \<Rightarrow> map fst m = series_index s)"
| "series_functions_aligned _ s = True"

section \<open>Example inputs\<close>

text \<open>
  An instance of the pandas parameters for the examples. No string denotes a number and
  no example reaches \<open>inexact_in_range\<close>. Two boolean Series with different indexes of
  distinct row keys are aligned on the keys of either, in ascending order: a row that
  one of the two lacks is false in the result, and the other rows combine the two
  booleans.
\<close>

definition parse_nothing :: "string \<Rightarrow> numeric option" where
  "parse_nothing s = None"

definition inexact_never :: "numeric list \<Rightarrow> numeric \<Rightarrow> numeric \<Rightarrow> numeric \<Rightarrow> bool" where
  "inexact_never ns minimum maximum v = False"

definition align_union :: "py_operator \<Rightarrow> mask \<Rightarrow> mask \<Rightarrow> error + mask" where
  "align_union operator a b =
     Inr (map (\<lambda>k. (k, (case map_of a k of
                           None \<Rightarrow> False
                         | Some x \<Rightarrow>
                             (case map_of b k of
                                None \<Rightarrow> False
                              | Some y \<Rightarrow> bool_operator operator x y))))
            (sort (remdups (map fst a @ map fst b))))"

definition example_pandas :: pandas where
  "example_pandas =
     \<lparr>parse = parse_nothing, inexact_in_range = inexact_never, align = align_union\<rparr>"

text \<open>A Series with the default index \<open>0, 1, 2, \<dots>\<close>.\<close>

definition range_series :: "string \<Rightarrow> scalar list \<Rightarrow> series" where
  "range_series name vs =
     \<lparr>series_name = name, series_index = map int [0..<length vs], series_values = vs\<rparr>"

text \<open>A user function for \<open>CustomSeriesValidation\<close> that fails every row.\<close>

definition all_rows_fail :: "series \<Rightarrow> error + mask" where
  "all_rows_fail s = Inr (keyed s (map (\<lambda>v. False) (series_values s)))"

text \<open>Two ranges with no message of their own.\<close>

definition range_0_10 :: validation where
  "range_0_10 = InRangeValidation (Fin 0) (Fin 10) None"

definition range_5_20 :: validation where
  "range_5_20 = InRangeValidation (Fin 5) (Fin 20) None"

text \<open>A function that raises on the cell \<open>3\<close> and returns on every other cell.\<close>

definition raises_on_three :: "scalar \<Rightarrow> error + unit" where
  "raises_on_three v = (if v = PInt 3 then Inl (UserException ''three'') else Inr ())"

text \<open>A user function for \<open>CustomSeriesValidation\<close> that returns a mask with no row.\<close>

definition empty_mask_function :: "series \<Rightarrow> error + mask" where
  "empty_mask_function s = Inr []"

text \<open>A column of two cells under the row keys \<open>10\<close> and \<open>20\<close>.\<close>

definition column_10_20 :: series where
  "column_10_20 =
     \<lparr>series_name = ''c'', series_index = [10, 20], series_values = [PInt 5, PInt 15]\<rparr>"

text \<open>
  A user function for \<open>CustomSeriesValidation\<close> that passes every cell and builds its
  mask without an index, so that the mask has the default row keys \<open>0, 1, 2, \<dots>\<close>.
\<close>

definition default_keys_pass :: "series \<Rightarrow> error + mask" where
  "default_keys_pass s =
     Inr (zip (map int [0..<length (series_values s)]) (map (\<lambda>v. True) (series_values s)))"

section \<open>Auxiliary lemmas\<close>

lemma series_apply_total: "series_apply (\<lambda>v. Inr (g v)) xs = Inr (map g xs)"
  by (induction xs) simp_all

lemma series_apply_length: "series_apply f xs = Inr ys \<Longrightarrow> length ys = length xs"
  by (induction xs arbitrary: ys) (auto split: sum.splits)

lemma series_apply_nth:
  "series_apply f xs = Inr ys \<Longrightarrow> i < length xs \<Longrightarrow> f (xs ! i) = Inr (ys ! i)"
proof (induction xs arbitrary: ys i)
  case Nil
  then show ?case by simp
next
  case (Cons x xs)
  then show ?case by (cases i) (auto split: sum.splits)
qed

lemma series_apply_raises:
  "x \<in> set xs \<Longrightarrow> f x = Inl e \<Longrightarrow> \<exists>e'. series_apply f xs = Inl e'"
  by (induction xs) (auto split: sum.splits)

lemma series_apply_error_source:
  "series_apply f xs = Inl e \<Longrightarrow> \<exists>x \<in> set xs. f x = Inl e"
  by (induction xs) (auto split: sum.splits)

lemma apply_operator_same_index:
  assumes "map fst a = map fst b"
  shows "apply_operator pd operator a b =
           Inr (zip (map fst a) (map2 (bool_operator operator) (map snd a) (map snd b)))"
  using assms by (simp add: apply_operator_def)

lemma same_index_length: "map fst a = map fst b \<Longrightarrow> length a = length b"
  by (metis length_map)

lemma combined_rows:
  assumes "map fst a = map fst b"
  shows "map fst (zip (map fst a) (map2 f (map snd a) (map snd b))) = map fst a"
    and "length (zip (map fst a) (map2 f (map snd a) (map snd b))) = length a"
    and "i < length a \<Longrightarrow>
         snd (zip (map fst a) (map2 f (map snd a) (map snd b)) ! i) = f (snd (a ! i)) (snd (b ! i))"
proof -
  from assms have len: "length a = length b" by (rule same_index_length)
  then show "map fst (zip (map fst a) (map2 f (map snd a) (map snd b))) = map fst a"
    by simp
  from len show "length (zip (map fst a) (map2 f (map snd a) (map snd b))) = length a"
    by simp
  assume "i < length a"
  with len show "snd (zip (map fst a) (map2 f (map snd a) (map snd b)) ! i) =
      f (snd (a ! i)) (snd (b ! i))"
    by simp
qed

lemma mask_not_rows:
  "map fst (mask_not m) = map fst m"
  "length (mask_not m) = length m"
  "i < length m \<Longrightarrow> snd (mask_not m ! i) = (\<not> snd (m ! i))"
  by (simp_all add: mask_not_def comp_def)

lemma keyed_index:
  "length bs = length (series_index s) \<Longrightarrow> map fst (keyed s bs) = series_index s"
  by (simp add: keyed_def)

lemma in_range_values_length: "length (in_range_values pd minimum maximum ns) = length ns"
proof (cases "those (map (exact_in_range minimum maximum) ns)")
  case None
  then show ?thesis by (simp add: in_range_values_def)
next
  case (Some bs)
  have "those xs = Some ys \<Longrightarrow> length ys = length xs" for xs :: "bool option list" and ys
    by (induction xs arbitrary: ys) (auto split: option.splits)
  from this [OF Some] Some show ?thesis by (simp add: in_range_values_def)
qed

lemma validate_index:
  assumes "length (series_index s) = length (series_values s)"
  shows "series_functions_aligned r s \<Longrightarrow> validate pd r s = Inr m \<Longrightarrow>
         map fst m = series_index s"
proof (induction r arbitrary: m)
  case (InverseValidation r msg)
  then show ?case by (auto simp: mask_not_rows split: sum.splits)
next
  case (CombinedValidation a b operator)
  from CombinedValidation.prems obtain ma mb
    where ma: "validate pd a s = Inr ma" and mb: "validate pd b s = Inr mb"
      and m: "apply_operator pd operator ma mb = Inr m"
    by (auto split: sum.splits)
  from CombinedValidation.IH(1) [OF _ ma] CombinedValidation.IH(2) [OF _ mb]
    CombinedValidation.prems(1)
  have ia: "map fst ma = series_index s" and ib: "map fst mb = series_index s" by simp_all
  then have same: "map fst ma = map fst mb" by simp
  from m apply_operator_same_index [OF same, of pd operator] combined_rows(1) [OF same] ia
  show ?case by auto
next
  case (CustomSeriesValidation f msg)
  then show ?case by simp
next
  case (CustomElementValidation f msg)
  then show ?case
    using assms by (auto simp: keyed_index split: sum.splits dest: series_apply_length)
next
  case (InRangeValidation mn mx msg)
  then show ?case
    using assms
    by (auto simp: keyed_index in_range_values_length to_numeric_def split: sum.splits
        dest: series_apply_length)
next
  case (CanCallValidation c msg)
  then show ?case using assms by (auto simp: keyed_index series_apply_total)
next
  case (CanConvertValidation c msg)
  then show ?case using assms by (auto simp: keyed_index series_apply_total)
qed

lemma series_getitem_row:
  assumes "wf_series s" and "(k, v) \<in> set (zip (series_index s) (series_values s))"
  shows "series_getitem s k = Inr v"
proof -
  from assms(1) have "distinct (map fst (zip (series_index s) (series_values s)))"
    by (simp add: wf_series_def)
  with assms(2) have "map_of (zip (series_index s) (series_values s)) k = Some v"
    by simp
  then show ?thesis by (simp add: series_getitem_def)
qed

lemma append_errors_rows:
  assumes "message self = Inr msg"
    and "\<forall>kv \<in> set kvs. series_getitem s (fst kv) = Inr (snd kv)"
  shows "append_errors self s errors (map fst kvs) = Inr (errors @ map (mk_warning msg s) kvs)"
  using assms(2)
proof (induction kvs arbitrary: errors)
  case Nil
  then show ?case by simp
next
  case (Cons kv kvs)
  then show ?case by (simp add: assms(1) mk_warning_def)
qed

lemma wf_range_series: "wf_series (range_series name vs)"
  by (simp add: wf_series_def range_series_def distinct_map inj_on_def)

lemma selected_rows:
  "length idx = length vals \<Longrightarrow>
   map fst (filter snd (zip idx bs)) = map fst (map fst (filter snd (zip (zip idx vals) bs)))"
proof (induction bs arbitrary: idx vals)
  case Nil
  then show ?case by simp
next
  case (Cons b bs)
  show ?case
  proof (cases idx)
    case Nil
    then show ?thesis by simp
  next
    case idx: (Cons k ks)
    with Cons.prems obtain v vs where vals: "vals = v # vs" and len: "length ks = length vs"
      by (cases vals) auto
    from Cons.IH [OF len] show ?thesis by (simp add: idx vals)
  qed
qed

lemma negated_rows:
  "map fst (filter snd (zip rows (map snd (mask_not m)))) =
   map fst (filter (\<lambda>r. \<not> snd r) (zip rows (map snd m)))"
proof (induction m arbitrary: rows)
  case Nil
  then show ?case by (simp add: mask_not_def)
next
  case (Cons b m)
  then show ?case by (cases rows) (auto simp: mask_not_def)
qed

lemma allow_empty_raises:
  assumes "allow_empty col" and "validate pd self s = Inr m"
  shows "get_errors pd self s col = Inl AttributeError"
  using assms by (simp add: get_errors_def validated_mask_def unicode_len_def)

lemma get_errors_wrong_length:
  assumes "\<not> allow_empty col" and "validate pd self s = Inr m"
    and "length m \<noteq> length (series_index s)"
  shows "get_errors pd self s col = Inl IndexError"
  using assms by (simp add: get_errors_def validated_mask_def index_getitem_def mask_not_rows)

lemma get_errors_rows:
  assumes wf: "wf_series s" and m: "validate pd self s = Inr m"
    and msg: "message self = Inr msg" and ae: "\<not> allow_empty col"
    and len: "length m = length (series_index s)"
  shows "get_errors pd self s col =
           Inr (map (mk_warning msg s)
                  (map fst (filter (\<lambda>r. \<not> snd r)
                     (zip (zip (series_index s) (series_values s)) (map snd m)))))"
proof -
  define rows where "rows = zip (series_index s) (series_values s)"
  define kvs where "kvs = map fst (filter snd (zip rows (map snd (mask_not m))))"
  from wf have l: "length (series_index s) = length (series_values s)"
    by (simp add: wf_series_def)
  have idx: "index_getitem (series_index s) (mask_not m) = Inr (map fst kvs)"
    unfolding kvs_def rows_def index_getitem_def
    using selected_rows [OF l, of "map snd (mask_not m)"] len by (simp add: mask_not_rows)
  have "set kvs \<subseteq> set rows"
    unfolding kvs_def by (auto dest: set_zip_leftD)
  then have found: "\<forall>kv \<in> set kvs. series_getitem s (fst kv) = Inr (snd kv)"
    using series_getitem_row [OF wf] unfolding rows_def by auto
  have kvs: "kvs = map fst (filter (\<lambda>r. \<not> snd r) (zip rows (map snd m)))"
    unfolding kvs_def by (rule negated_rows)
  have "get_errors pd self s col = append_errors self s [] (map fst kvs)"
    unfolding get_errors_def validated_mask_def by (simp add: m ae idx)
  also have "\<dots> = Inr (map (mk_warning msg s) kvs)"
    using append_errors_rows [OF msg found, of "[]"] by simp
  finally show ?thesis by (simp add: kvs rows_def)
qed

section \<open>The empty-cell policy\<close>



section \<open>Combinators\<close>

text \<open>
  Claim C4. The mask of a negated rule is the mask of the inner rule with every entry
  negated, position by position, of the same length and over the same row keys; an
  exception of the inner rule passes through. This holds for \<open>~R\<close> and for an
  \<open>InverseValidation\<close> built by hand with a message.
\<close>

theorem inverse_validate_negates:
  "(\<forall>e. validate pd r s = Inl e \<longrightarrow>
      validate pd (InverseValidation r msg) s = Inl e \<and> validate pd (invert r) s = Inl e) \<and>
   (\<forall>m. validate pd r s = Inr m \<longrightarrow>
      (\<exists>m'. validate pd (InverseValidation r msg) s = Inr m' \<and>
            validate pd (invert r) s = Inr m' \<and>
            length m' = length m \<and> map fst m' = map fst m \<and>
            (\<forall>i < length m. snd (m' ! i) = (\<not> snd (m ! i)))))"
  by (simp add: invert_def mask_not_rows)

theorem inverse_validate_negates_witness:
  "validate example_pandas range_0_10 (range_series ''c'' [PInt 5, PInt 15]) =
     Inr [(0, True), (1, False)] \<and>
   validate example_pandas (invert range_0_10) (range_series ''c'' [PInt 5, PInt 15]) =
     Inr [(0, False), (1, True)] \<and>
   validate example_pandas range_0_10 (range_series ''c'' [PStr ''x'']) = Inl ValueError \<and>
   validate example_pandas (invert range_0_10) (range_series ''c'' [PStr ''x'']) = Inl ValueError"
  using inverse_validate_negates [of example_pandas range_0_10
      "range_series ''c'' [PInt 5, PInt 15]" None]
    inverse_validate_negates [of example_pandas range_0_10 "range_series ''c'' [PStr ''x'']" None]
  by (simp add: range_0_10_def range_series_def to_numeric_def parse_nothing_def invert_def
      mask_not_def example_pandas_def keyed_def in_range_values_def is_int64_def)

text \<open>
  Claim C5. When the masks of \<open>A\<close> and \<open>B\<close> are over the same row keys, the mask of
  \<open>A & B\<close> is their position-wise conjunction and that of \<open>A | B\<close> their
  position-wise disjunction, over those row keys. The masks are over the row keys of the
  column, and so over the same ones, whenever every user function of a
  \<open>CustomSeriesValidation\<close> inside \<open>A\<close> and \<open>B\<close> returns its mask over them. Both
  masks are computed before the operator is applied: an exception of \<open>A\<close> or of
  \<open>B\<close> is the outcome, whatever the other mask holds.
\<close>

theorem combined_validate_positionwise:
  "(\<forall>ma mb. validate pd a s = Inr ma \<longrightarrow> validate pd b s = Inr mb \<longrightarrow>
      map fst ma = map fst mb \<longrightarrow>
      (\<exists>m. validate pd (validation_and a b) s = Inr m \<and>
           map fst m = map fst ma \<and> length m = length ma \<and>
           (\<forall>i < length ma. snd (m ! i) = (snd (ma ! i) \<and> snd (mb ! i)))) \<and>
      (\<exists>m. validate pd (validation_or a b) s = Inr m \<and>
           map fst m = map fst ma \<and> length m = length ma \<and>
           (\<forall>i < length ma. snd (m ! i) = (snd (ma ! i) \<or> snd (mb ! i))))) \<and>
   (\<forall>ma mb. length (series_index s) = length (series_values s) \<longrightarrow>
      series_functions_aligned a s \<longrightarrow> series_functions_aligned b s \<longrightarrow>
      validate pd a s = Inr ma \<longrightarrow> validate pd b s = Inr mb \<longrightarrow>
      map fst ma = series_index s \<and> map fst mb = series_index s) \<and>
   (\<forall>e. validate pd a s = Inl e \<longrightarrow>
      validate pd (validation_and a b) s = Inl e \<and>
      validate pd (validation_or a b) s = Inl e) \<and>
   (\<forall>ma e. validate pd a s = Inr ma \<longrightarrow> validate pd b s = Inl e \<longrightarrow>
      validate pd (validation_and a b) s = Inl e \<and>
      validate pd (validation_or a b) s = Inl e)"
proof (intro conjI allI impI)
  fix ma mb
  assume ma: "validate pd a s = Inr ma" and mb: "validate pd b s = Inr mb"
    and same: "map fst ma = map fst mb"
  show "\<exists>m. validate pd (validation_and a b) s = Inr m \<and>
           map fst m = map fst ma \<and> length m = length ma \<and>
           (\<forall>i < length ma. snd (m ! i) = (snd (ma ! i) \<and> snd (mb ! i)))"
    using combined_rows [OF same, where f = "bool_operator operator_and"]
    by (simp add: validation_and_def ma mb apply_operator_same_index [OF same])
  show "\<exists>m. validate pd (validation_or a b) s = Inr m \<and>
           map fst m = map fst ma \<and> length m = length ma \<and>
           (\<forall>i < length ma. snd (m ! i) = (snd (ma ! i) \<or> snd (mb ! i)))"
    using combined_rows [OF same, where f = "bool_operator operator_or"]
    by (simp add: validation_or_def ma mb apply_operator_same_index [OF same])
next
  fix ma mb
  assume len: "length (series_index s) = length (series_values s)"
    and "series_functions_aligned a s" and "validate pd a s = Inr ma"
  then show "map fst ma = series_index s" by (rule validate_index)
next
  fix ma mb
  assume len: "length (series_index s) = length (series_values s)"
    and "series_functions_aligned b s" and "validate pd b s = Inr mb"
  then show "map fst mb = series_index s" by (rule validate_index)
qed (simp_all add: validation_and_def validation_or_def)

theorem combined_validate_positionwise_witness:
  "validate example_pandas range_0_10 (range_series ''c'' [PInt 3, PInt 7, PInt 15]) =
     Inr [(0, True), (1, True), (2, False)] \<and>
   validate example_pandas range_5_20 (range_series ''c'' [PInt 3, PInt 7, PInt 15]) =
     Inr [(0, False), (1, True), (2, True)] \<and>
   map fst [(0 :: row_key, True), (1, True), (2, False)] =
     map fst [(0 :: row_key, False), (1, True), (2, True)] \<and>
   validate example_pandas (validation_and range_0_10 range_5_20)
     (range_series ''c'' [PInt 3, PInt 7, PInt 15]) = Inr [(0, False), (1, True), (2, False)] \<and>
   validate example_pandas (validation_or range_0_10 range_5_20)
     (range_series ''c'' [PInt 3, PInt 7, PInt 15]) = Inr [(0, True), (1, True), (2, True)] \<and>
   length (series_index (range_series ''c'' [PInt 3, PInt 7, PInt 15])) =
     length (series_values (range_series ''c'' [PInt 3, PInt 7, PInt 15])) \<and>
   series_functions_aligned range_0_10 (range_series ''c'' [PInt 3, PInt 7, PInt 15]) \<and>
   series_functions_aligned range_5_20 (range_series ''c'' [PInt 3, PInt 7, PInt 15]) \<and>
   validate example_pandas range_0_10 (range_series ''c'' [PStr ''x'']) = Inl ValueError \<and>
   validate example_pandas (validation_and range_0_10 range_5_20)
     (range_series ''c'' [PStr ''x'']) = Inl ValueError \<and>
   validate example_pandas (CustomSeriesValidation all_rows_fail None)
     (range_series ''c'' [PStr ''x'']) = Inr [(0, False)] \<and>
   validate example_pandas
     (validation_and (CustomSeriesValidation all_rows_fail None) range_0_10)
     (range_series ''c'' [PStr ''x'']) = Inl ValueError"
  using combined_validate_positionwise [of example_pandas range_0_10
      "range_series ''c'' [PInt 3, PInt 7, PInt 15]" range_5_20]
    combined_validate_positionwise [of example_pandas range_0_10
      "range_series ''c'' [PStr ''x'']" range_5_20]
    combined_validate_positionwise [of example_pandas "CustomSeriesValidation all_rows_fail None"
      "range_series ''c'' [PStr ''x'']" range_0_10]
  by (simp add: range_0_10_def range_5_20_def range_series_def to_numeric_def parse_nothing_def
      validation_and_def validation_or_def apply_operator_def all_rows_fail_def
      example_pandas_def keyed_def in_range_values_def is_int64_def)

text \<open>
  Masks over other row keys are not combined position by position. On a column under
  the row keys \<open>10, 20\<close>, the range rule returns its mask over those keys, and a user
  function that builds its mask without an index returns it over \<open>0, 1\<close>; their
  conjunction is over the four keys and false everywhere, where the position-wise
  conjunction of the two masks is \<open>True, False\<close>.
\<close>

theorem combined_validate_positionwise_counterexample:
  "validate example_pandas range_0_10 column_10_20 = Inr [(10, True), (20, False)] \<and>
   validate example_pandas (CustomSeriesValidation default_keys_pass None) column_10_20 =
     Inr [(0, True), (1, True)] \<and>
   validate example_pandas
     (validation_and range_0_10 (CustomSeriesValidation default_keys_pass None)) column_10_20 =
     Inr [(0, False), (1, False), (10, False), (20, False)] \<and>
   map snd [(0 :: row_key, False), (1, False), (10, False), (20, False)] \<noteq>
     map2 (\<and>) (map snd [(10 :: row_key, True), (20, False)])
       (map snd [(0 :: row_key, True), (1, True)])"
  by (simp add: range_0_10_def column_10_20_def default_keys_pass_def validation_and_def
      to_numeric_def in_range_values_def is_int64_def keyed_def apply_operator_def
      example_pandas_def align_union_def)

section \<open>Messages of the rules\<close>

text \<open>
  Claim C10. The message of a rule is the stored custom message when that is a
  non-empty string; when no message is stored, or the stored message is the empty
  string, it is the default message. The choice follows the truthiness of the stored
  message.
\<close>

theorem message_selects_by_truthiness:
  "(\<forall>m. custom_message self = Some m \<longrightarrow> m \<noteq> [] \<longrightarrow> message self = Inr (Some m)) \<and>
   (custom_message self = Some [] \<longrightarrow> message self = default_message self) \<and>
   (custom_message self = None \<longrightarrow> message self = default_message self)"
  by (simp add: message.simps py_or_def)

theorem message_selects_by_truthiness_witness:
  "custom_message (InRangeValidation (Fin 0) (Fin 10) (Some ''bad'')) = Some ''bad'' \<and>
   ''bad'' \<noteq> [] \<and>
   message (InRangeValidation (Fin 0) (Fin 10) (Some ''bad'')) = Inr (Some ''bad'') \<and>
   custom_message (InRangeValidation (Fin 0) (Fin 10) (Some [])) = Some [] \<and>
   message (InRangeValidation (Fin 0) (Fin 10) (Some [])) =
     Inr (Some ''was not in the range [0, 10)'') \<and>
   custom_message (InRangeValidation (Fin 0) (Fin 10) None) = None \<and>
   message (InRangeValidation (Fin 0) (Fin 10) None) =
     Inr (Some ''was not in the range [0, 10)'')"
  using message_selects_by_truthiness [of "InRangeValidation (Fin 0) (Fin 10) (Some ''bad'')"]
    message_selects_by_truthiness [of "InRangeValidation (Fin 0) (Fin 10) (Some [])"]
    message_selects_by_truthiness [of "InRangeValidation (Fin 0) (Fin 10) None"]
  by (simp add: str_of_int_def decimal.simps digit_char_def)

text \<open>
  Claim C9. The default message of a combinator over \<open>a\<close> and \<open>b\<close> whose messages
  are strings is \<open>(\<close>, the message of \<open>a\<close>, \<open>)\<close>, a space, the stored operator as
  \<open>str.format\<close> prints it, a space, \<open>(\<close>, the message of \<open>b\<close>, \<open>)\<close>. The stored
  operator is a function of the \<open>operator\<close> module, and it prints as
  \<open><built-in function and_>\<close> for \<open>&\<close> and \<open><built-in function or_>\<close> for \<open>|\<close>. The
  combinator stores no message of its own, so this is its message as well.
\<close>

theorem combined_default_message:
  "(\<forall>ma mb. message a = Inr (Some ma) \<longrightarrow> message b = Inr (Some mb) \<longrightarrow>
      default_message (CombinedValidation a b operator) =
        Inr (Some (''('' @ ma @ '') '' @ format_operator operator @ '' ('' @ mb @ '')'')) \<and>
      message (CombinedValidation a b operator) =
        Inr (Some (''('' @ ma @ '') '' @ format_operator operator @ '' ('' @ mb @ '')''))) \<and>
   validation_and a b = CombinedValidation a b operator_and \<and>
   validation_or a b = CombinedValidation a b operator_or \<and>
   format_operator operator_and = ''<built-in function and_>'' \<and>
   format_operator operator_or = ''<built-in function or_>''"
  by (simp add: validation_and_def validation_or_def message.simps [of "CombinedValidation a b operator"] py_or_def)

theorem combined_default_message_witness:
  "message range_0_10 = Inr (Some ''was not in the range [0, 10)'') \<and>
   message range_5_20 = Inr (Some ''was not in the range [5, 20)'') \<and>
   default_message (validation_or range_0_10 range_5_20) =
     Inr (Some ''(was not in the range [0, 10)) <built-in function or_> (was not in the range [5, 20))'')"
  using combined_default_message [of range_0_10 range_5_20 operator_or]
  by (simp add: validation_or_def range_0_10_def range_5_20_def message.simps py_or_def
      str_of_int_def decimal.simps digit_char_def)

text \<open>
  The operator does not print as \<open>AND\<close>, nor as \<open>&\<close>: the default message of the
  conjunction of two ranges.
\<close>

theorem combined_default_message_counterexample:
  "message range_0_10 = Inr (Some ''was not in the range [0, 10)'') \<and>
   message range_5_20 = Inr (Some ''was not in the range [5, 20)'') \<and>
   default_message (validation_and range_0_10 range_5_20) =
     Inr (Some ''(was not in the range [0, 10)) <built-in function and_> (was not in the range [5, 20))'') \<and>
   default_message (validation_and range_0_10 range_5_20) \<noteq>
     Inr (Some ''(was not in the range [0, 10)) AND (was not in the range [5, 20))'') \<and>
   default_message (validation_and range_0_10 range_5_20) \<noteq>
     Inr (Some ''(was not in the range [0, 10)) & (was not in the range [5, 20))'')"
  by (simp add: validation_and_def range_0_10_def range_5_20_def message.simps py_or_def
      str_of_int_def decimal.simps digit_char_def)

section \<open>Construction of the call rules\<close>

text \<open>
  Claim C2. \<open>CanCallValidation.__init__\<close> is meant to raise the configuration error
  for an argument that is not callable. It tests the built-in \<open>type\<close> in place of
  its argument, so it accepts every argument: the plain value \<open>5\<close> is stored, each
  later call of it raises \<open>TypeError\<close> inside \<open>can_call\<close>, and every row of the column
  is reported as a warning.
\<close>

theorem CanCallValidation_init_accepts_non_callable:
  "CanCallValidation_init func msg = Inr (CanCallValidation func msg) \<and>
   \<not> callable (Value (PInt 5)) \<and>
   CanCallValidation_init (Value (PInt 5)) None = Inr (CanCallValidation (Value (PInt 5)) None) \<and>
   validate example_pandas (CanCallValidation (Value (PInt 5)) None)
     (range_series ''c'' [PInt 1, PInt 2]) = Inr [(0, False), (1, False)] \<and>
   get_errors example_pandas (CanCallValidation (Value (PInt 5)) None)
     (range_series ''c'' [PInt 1, PInt 2]) \<lparr>allow_empty = False\<rparr> =
     Inr [\<lparr>wmessage = Some ''raised an exception when the callable 5 was called on it'',
            wvalue = PInt 1, wrow = Some 0, wcolumn = Some ''c''\<rparr>,
          \<lparr>wmessage = Some ''raised an exception when the callable 5 was called on it'',
            wvalue = PInt 2, wrow = Some 1, wcolumn = Some ''c''\<rparr>]"
  by (simp add: CanCallValidation_init_def builtin_type_def get_errors_def validated_mask_def
      range_series_def can_call_def mask_not_def index_getitem_def series_getitem_def keyed_def
      message.simps py_or_def str_of_int_def decimal.simps digit_char_def)

section \<open>Exceptions of the user's callable\<close>

lemma can_call_message:
  "\<exists>shown. message (CanCallValidation c msg) = Inr shown"
  "\<exists>shown. message (CanConvertValidation c msg) = Inr shown"
  by (simp_all add: message.simps py_or_def split: option.splits)

lemma can_call_iff: "can_call c v = (\<forall>e. call c v \<noteq> Inl e)"
  by (cases "call c v") (simp_all add: can_call_def)

lemma can_call_mask:
  "validate pd (CanCallValidation c msg) s = Inr (keyed s (map (can_call c) (series_values s)))"
  "validate pd (CanConvertValidation c msg) s = Inr (keyed s (map (can_call c) (series_values s)))"
  by (simp_all add: series_apply_total)

text \<open>
  Claim C3. For \<open>CanCallValidation\<close> and \<open>CanConvertValidation\<close>, \<open>validate\<close> always
  returns a mask, over the row keys of the column, whose entry is false exactly at the
  cells on which the call raises. On a column that does not allow empty cells
  \<open>get_errors\<close> returns its warnings and raises nothing; on one that allows them it
  raises \<open>AttributeError\<close>, from \<open>series.unicode\<close> and not from the callable. A
  function that raises exactly on \<open>3\<close>, checked on the cells \<open>1, 2, 3\<close>, gives exactly
  one warning, for the row holding \<open>3\<close>, on the first kind of column and that
  exception on the second.
\<close>

theorem can_call_contains_exceptions:
  "(\<exists>m. validate pd (CanCallValidation c msg) s = Inr m \<and>
        validate pd (CanConvertValidation c msg) s = Inr m \<and>
        (length (series_index s) = length (series_values s) \<longrightarrow>
           map fst m = series_index s \<and>
           (\<forall>i < length (series_values s).
              snd (m ! i) = (\<forall>e. call c (series_values s ! i) \<noteq> Inl e)))) \<and>
   (allow_empty col \<longrightarrow>
      get_errors pd (CanCallValidation c msg) s col = Inl AttributeError \<and>
      get_errors pd (CanConvertValidation c msg) s col = Inl AttributeError) \<and>
   (\<not> allow_empty col \<longrightarrow> wf_series s \<longrightarrow>
      (\<exists>ws. get_errors pd (CanCallValidation c msg) s col = Inr ws) \<and>
      (\<exists>ws. get_errors pd (CanConvertValidation c msg) s col = Inr ws)) \<and>
   (\<forall>f shown name k1 k2 k3.
      (\<forall>v. (\<exists>e. f v = Inl e) = (v = PInt 3)) \<longrightarrow> distinct [k1, k2, k3] \<longrightarrow>
      get_errors pd (CanCallValidation (Function shown f) None)
        \<lparr>series_name = name, series_index = [k1, k2, k3],
          series_values = [PInt 1, PInt 2, PInt 3]\<rparr> col =
        (if allow_empty col then Inl AttributeError
         else Inr [\<lparr>wmessage = Some (''raised an exception when the callable '' @ shown
                                      @ '' was called on it''),
                    wvalue = PInt 3, wrow = Some k3, wcolumn = Some name\<rparr>]))"
proof (intro conjI impI allI)
  show "\<exists>m. validate pd (CanCallValidation c msg) s = Inr m \<and>
        validate pd (CanConvertValidation c msg) s = Inr m \<and>
        (length (series_index s) = length (series_values s) \<longrightarrow>
           map fst m = series_index s \<and>
           (\<forall>i < length (series_values s).
              snd (m ! i) = (\<forall>e. call c (series_values s ! i) \<noteq> Inl e)))"
    by (simp add: series_apply_total keyed_def can_call_iff)
next
  assume "allow_empty col"
  then show "get_errors pd (CanCallValidation c msg) s col = Inl AttributeError"
    and "get_errors pd (CanConvertValidation c msg) s col = Inl AttributeError"
    by (simp_all add: allow_empty_raises [OF _ can_call_mask(1)]
        allow_empty_raises [OF _ can_call_mask(2)])
next
  assume ae: "\<not> allow_empty col" and wf: "wf_series s"
  from wf have len: "length (keyed s (map (can_call c) (series_values s))) = length (series_index s)"
    by (simp add: keyed_def wf_series_def)
  obtain mtext where mtext: "message (CanCallValidation c msg) = Inr mtext"
    using can_call_message(1) by blast
  from get_errors_rows [OF wf can_call_mask(1) mtext ae len]
  show "\<exists>ws. get_errors pd (CanCallValidation c msg) s col = Inr ws" by blast
  obtain ctext where ctext: "message (CanConvertValidation c msg) = Inr ctext"
    using can_call_message(2) by blast
  from get_errors_rows [OF wf can_call_mask(2) ctext ae len]
  show "\<exists>ws. get_errors pd (CanConvertValidation c msg) s col = Inr ws" by blast
next
  fix f :: "scalar \<Rightarrow> error + unit" and shown name :: string and k1 k2 k3 :: row_key
  assume f: "\<forall>v. (\<exists>e. f v = Inl e) = (v = PInt 3)" and d: "distinct [k1, k2, k3]"
  from f have "(\<exists>e. f (PInt 1) = Inl e) = (PInt 1 = PInt 3)"
    and "(\<exists>e. f (PInt 2) = Inl e) = (PInt 2 = PInt 3)"
    and "(\<exists>e. f (PInt 3) = Inl e) = (PInt 3 = PInt 3)"
    by blast+
  then have "can_call (Function shown f) (PInt 1)" "can_call (Function shown f) (PInt 2)"
    "\<not> can_call (Function shown f) (PInt 3)"
    unfolding can_call_iff by simp_all
  with d show "get_errors pd (CanCallValidation (Function shown f) None)
        \<lparr>series_name = name, series_index = [k1, k2, k3],
          series_values = [PInt 1, PInt 2, PInt 3]\<rparr> col =
        (if allow_empty col then Inl AttributeError
         else Inr [\<lparr>wmessage = Some (''raised an exception when the callable '' @ shown
                                      @ '' was called on it''),
                    wvalue = PInt 3, wrow = Some k3, wcolumn = Some name\<rparr>])"
    by (simp add: get_errors_def validated_mask_def unicode_len_def mask_not_def keyed_def
        index_getitem_def series_getitem_def message.simps py_or_def)
qed

theorem can_call_contains_exceptions_witness:
  "length (series_index (range_series ''c'' [PInt 1, PInt 2, PInt 3])) =
     length (series_values (range_series ''c'' [PInt 1, PInt 2, PInt 3])) \<and>
   wf_series (range_series ''c'' [PInt 1, PInt 2, PInt 3]) \<and>
   (\<forall>v. (\<exists>e. raises_on_three v = Inl e) = (v = PInt 3)) \<and>
   distinct [0 :: row_key, 1, 2] \<and>
   validate example_pandas (CanCallValidation (Function ''f'' raises_on_three) None)
     (range_series ''c'' [PInt 1, PInt 2, PInt 3]) = Inr [(0, True), (1, True), (2, False)] \<and>
   \<not> allow_empty \<lparr>allow_empty = False\<rparr> \<and>
   get_errors example_pandas (CanCallValidation (Function ''f'' raises_on_three) None)
     (range_series ''c'' [PInt 1, PInt 2, PInt 3]) \<lparr>allow_empty = False\<rparr> =
     Inr [\<lparr>wmessage = Some ''raised an exception when the callable f was called on it'',
            wvalue = PInt 3, wrow = Some 2, wcolumn = Some ''c''\<rparr>] \<and>
   allow_empty \<lparr>allow_empty = True\<rparr> \<and>
   get_errors example_pandas (CanCallValidation (Function ''f'' raises_on_three) None)
     (range_series ''c'' [PInt 1, PInt 2, PInt 3]) \<lparr>allow_empty = True\<rparr> =
     Inl AttributeError"
proof -
  have wf: "wf_series (range_series ''c'' [PInt 1, PInt 2, PInt 3])"
    by (rule wf_range_series)
  have f: "\<forall>v. (\<exists>e. raises_on_three v = Inl e) = (v = PInt 3)"
    by (simp add: raises_on_three_def)
  show ?thesis
    using wf f
      can_call_contains_exceptions [of example_pandas "Function ''f'' raises_on_three" None
        "range_series ''c'' [PInt 1, PInt 2, PInt 3]" "\<lparr>allow_empty = False\<rparr>"]
      can_call_contains_exceptions [of example_pandas "Function ''f'' raises_on_three" None
        "range_series ''c'' [PInt 1, PInt 2, PInt 3]" "\<lparr>allow_empty = True\<rparr>"]
    by (simp add: range_series_def can_call_def raises_on_three_def get_errors_def
        validated_mask_def unicode_len_def mask_not_def keyed_def index_getitem_def
        series_getitem_def message.simps py_or_def)
qed

section \<open>Length of the mask\<close>

text \<open>
  Claim C6. When every user function of a \<open>CustomSeriesValidation\<close> inside the rule
  returns a mask over the row keys of the column, the mask that \<open>validate\<close> returns is
  over those row keys and has the length of the column. This covers the combinators, and
  every rule that holds no \<open>CustomSeriesValidation\<close>.
\<close>

theorem validate_length:
  "length (series_index s) = length (series_values s) \<Longrightarrow> series_functions_aligned r s \<Longrightarrow>
   validate pd r s = Inr m \<Longrightarrow>
   length m = length (series_values s) \<and> map fst m = series_index s"
proof -
  assume len: "length (series_index s) = length (series_values s)"
    and "series_functions_aligned r s" and "validate pd r s = Inr m"
  then have keys: "map fst m = series_index s" by (rule validate_index)
  then have "length m = length (series_index s)" by (metis length_map)
  with len keys show ?thesis by simp
qed

theorem validate_length_witness:
  "length (series_index (range_series ''c'' [PInt 5, PInt 15])) =
     length (series_values (range_series ''c'' [PInt 5, PInt 15])) \<and>
   series_functions_aligned
     (validation_and (invert range_0_10) (CustomSeriesValidation all_rows_fail None))
     (range_series ''c'' [PInt 5, PInt 15]) \<and>
   validate example_pandas
     (validation_and (invert range_0_10) (CustomSeriesValidation all_rows_fail None))
     (range_series ''c'' [PInt 5, PInt 15]) = Inr [(0, False), (1, False)] \<and>
   length [(0 :: row_key, False), (1, False)] =
     length (series_values (range_series ''c'' [PInt 5, PInt 15]))"
proof -
  have l: "length (series_index (range_series ''c'' [PInt 5, PInt 15])) =
     length (series_values (range_series ''c'' [PInt 5, PInt 15]))"
    by (simp add: range_series_def)
  have a: "series_functions_aligned
     (validation_and (invert range_0_10) (CustomSeriesValidation all_rows_fail None))
     (range_series ''c'' [PInt 5, PInt 15])"
    by (simp add: validation_and_def invert_def range_0_10_def all_rows_fail_def keyed_def
        range_series_def)
  have v: "validate example_pandas
     (validation_and (invert range_0_10) (CustomSeriesValidation all_rows_fail None))
     (range_series ''c'' [PInt 5, PInt 15]) = Inr [(0, False), (1, False)]"
    by (simp add: validation_and_def invert_def range_0_10_def all_rows_fail_def
        range_series_def to_numeric_def apply_operator_def mask_not_def keyed_def
        in_range_values_def is_int64_def example_pandas_def)
  from l a v validate_length [OF l a v] show ?thesis by simp
qed

text \<open>
  \<open>CustomSeriesValidation.validate\<close> returns what the user function returns, which no
  code compares with the column: a function that returns the empty mask on a column of
  one cell. And a user mask with one boolean per cell, but over other row keys than the
  column's, makes the mask of a conjunction longer than the column: four rows on the
  column of two cells under the row keys \<open>10, 20\<close>.
\<close>

theorem validate_length_counterexample:
  "validate example_pandas (CustomSeriesValidation empty_mask_function None)
     (range_series ''c'' [PInt 1]) = Inr [] \<and>
   length ([] :: mask) \<noteq> length (series_values (range_series ''c'' [PInt 1])) \<and>
   validate example_pandas (CustomSeriesValidation default_keys_pass None) column_10_20 =
     Inr [(0, True), (1, True)] \<and>
   validate example_pandas
     (validation_and range_0_10 (CustomSeriesValidation default_keys_pass None)) column_10_20 =
     Inr [(0, False), (1, False), (10, False), (20, False)] \<and>
   length [(0 :: row_key, False), (1, False), (10, False), (20, False)] \<noteq>
     length (series_values column_10_20)"
  by (simp add: empty_mask_function_def range_series_def range_0_10_def column_10_20_def
      default_keys_pass_def validation_and_def to_numeric_def in_range_values_def is_int64_def
      keyed_def apply_operator_def example_pandas_def align_union_def)

section \<open>The range rule\<close>

lemma to_numeric_cell_error: "to_numeric_cell parse_string v = Inl e \<Longrightarrow> e = ValueError"
  by (cases v) (auto split: option.splits)

lemma to_numeric_raises:
  assumes "v \<in> set vs" and "to_numeric_cell parse_string v = Inl e"
  shows "to_numeric parse_string vs = Inl ValueError"
proof -
  from series_apply_raises [of v vs "to_numeric_cell parse_string" e] assms
  obtain e' where e': "to_numeric parse_string vs = Inl e'"
    by (auto simp: to_numeric_def)
  then obtain x where "to_numeric_cell parse_string x = Inl e'"
    by (auto simp: to_numeric_def dest: series_apply_error_source)
  then have "e' = ValueError" by (rule to_numeric_cell_error)
  with e' show ?thesis by simp
qed

text \<open>
  Claim C7. When some cell of the column cannot be coerced to a number,
  \<open>InRangeValidation.validate\<close> raises the conversion error of \<open>pd.to_numeric\<close>, and so
  does \<open>get_errors\<close>, whatever the policy of the column: no list of warnings is
  returned. So it is for the range from 0 to 10 on the cells \<open>-1, 5, 10, "x"\<close> when
  \<open>"x"\<close> denotes no number.
\<close>

theorem in_range_coercion_error_propagates:
  "(\<forall>v e. v \<in> set (series_values s) \<longrightarrow> to_numeric_cell (parse pd) v = Inl e \<longrightarrow>
      validate pd (InRangeValidation minimum maximum msg) s = Inl ValueError \<and>
      get_errors pd (InRangeValidation minimum maximum msg) s col = Inl ValueError) \<and>
   (\<forall>name idx. parse pd ''x'' = None \<longrightarrow>
      get_errors pd (InRangeValidation_init (Some (Fin 0)) (Some (Fin 10)) msg)
        \<lparr>series_name = name, series_index = idx,
          series_values = [PInt (- 1), PInt 5, PInt 10, PStr ''x'']\<rparr> col = Inl ValueError)"
proof (intro conjI impI allI)
  fix v e
  assume "v \<in> set (series_values s)" and "to_numeric_cell (parse pd) v = Inl e"
  then have "to_numeric (parse pd) (series_values s) = Inl ValueError"
    by (rule to_numeric_raises)
  then show "validate pd (InRangeValidation minimum maximum msg) s = Inl ValueError"
    and "get_errors pd (InRangeValidation minimum maximum msg) s col = Inl ValueError"
    by (simp_all add: get_errors_def)
next
  fix name idx
  assume "parse pd ''x'' = None"
  then show "get_errors pd (InRangeValidation_init (Some (Fin 0)) (Some (Fin 10)) msg)
        \<lparr>series_name = name, series_index = idx,
          series_values = [PInt (- 1), PInt 5, PInt 10, PStr ''x'']\<rparr> col = Inl ValueError"
    by (simp add: get_errors_def InRangeValidation_init_def to_numeric_def)
qed

theorem in_range_coercion_error_propagates_witness:
  "PStr ''x'' \<in> set (series_values (range_series ''c'' [PInt (- 1), PInt 5, PInt 10, PStr ''x''])) \<and>
   to_numeric_cell (parse example_pandas) (PStr ''x'') = Inl ValueError \<and>
   validate example_pandas range_0_10
     (range_series ''c'' [PInt (- 1), PInt 5, PInt 10, PStr ''x'']) = Inl ValueError \<and>
   parse example_pandas ''x'' = None \<and>
   get_errors example_pandas (InRangeValidation_init (Some (Fin 0)) (Some (Fin 10)) None)
     (range_series ''c'' [PInt (- 1), PInt 5, PInt 10, PStr ''x''])
     \<lparr>allow_empty = False\<rparr> = Inl ValueError"
  using in_range_coercion_error_propagates [of
      "range_series ''c'' [PInt (- 1), PInt 5, PInt 10, PStr ''x'']" example_pandas
      "Fin 0" "Fin 10" None "\<lparr>allow_empty = False\<rparr>"]
  by (simp add: range_series_def parse_nothing_def example_pandas_def range_0_10_def
      to_numeric_def get_errors_def InRangeValidation_init_def)

lemma to_numeric_ints: "to_numeric parse_string (map PInt ks) = Inr (map Fin ks)"
  by (induction ks) (simp_all add: to_numeric_def)

lemma exact_ints:
  assumes "\<forall>k \<in> set ks. is_int64 k"
    and "\<forall>k. int64_ge k minimum = Some (ge k)" and "\<forall>k. int64_lt k maximum = Some (lt k)"
  shows "those (map (exact_in_range minimum maximum) (map Fin ks)) =
           Some (map (\<lambda>k. ge k \<and> lt k) ks)"
  using assms(1) by (induction ks) (simp_all add: assms(2,3))

lemma in_range_ints:
  assumes "series_values s = map PInt ks" and "\<forall>k \<in> set ks. is_int64 k"
    and "\<forall>k. int64_ge k minimum = Some (ge k)" and "\<forall>k. int64_lt k maximum = Some (lt k)"
  shows "validate pd (InRangeValidation minimum maximum msg) s =
           Inr (keyed s (map (\<lambda>k. ge k \<and> lt k) ks))"
  using exact_ints [OF assms(2,3,4)]
  by (simp add: assms(1) to_numeric_ints in_range_values_def)

text \<open>
  Claim C8. On a column whose cells are integers of 64 bits, with bounds that are such
  integers, the mask of \<open>InRangeValidation\<close> holds for each cell \<open>v\<close> whether
  \<open>min \<le> v\<close> and \<open>v < max\<close>: the lower bound is inclusive and the upper bound
  exclusive. A bound that is not given is minus or plus infinity, and then every such
  cell passes. The range from 0 to 10 on the cells \<open>5, 15, -3\<close> gives the warnings for
  the rows holding \<open>15\<close> and \<open>-3\<close>, each with the message
  \<open>was not in the range [0, 10)\<close>, on a column that does not allow empty cells; on one
  that allows them \<open>get_errors\<close> raises \<open>AttributeError\<close>, from \<open>series.unicode\<close>.
\<close>

theorem in_range_validate:
  "(\<forall>ks a b. series_values s = map PInt ks \<longrightarrow> (\<forall>k \<in> set ks. is_int64 k) \<longrightarrow>
      is_int64 a \<longrightarrow> is_int64 b \<longrightarrow>
      validate pd (InRangeValidation (Fin a) (Fin b) msg) s =
        Inr (keyed s (map (\<lambda>k. a \<le> k \<and> k < b) ks))) \<and>
   InRangeValidation_init None None msg = InRangeValidation NegInf PosInf msg \<and>
   (\<forall>ks. series_values s = map PInt ks \<longrightarrow> (\<forall>k \<in> set ks. is_int64 k) \<longrightarrow>
      validate pd (InRangeValidation_init None None msg) s =
        Inr (keyed s (map (\<lambda>k. True) ks))) \<and>
   (\<forall>name k1 k2 k3. distinct [k1, k2, k3] \<longrightarrow>
      get_errors pd (InRangeValidation_init (Some (Fin 0)) (Some (Fin 10)) None)
        \<lparr>series_name = name, series_index = [k1, k2, k3],
          series_values = [PInt 5, PInt 15, PInt (- 3)]\<rparr> col =
        (if allow_empty col then Inl AttributeError
         else Inr [\<lparr>wmessage = Some ''was not in the range [0, 10)'', wvalue = PInt 15,
                    wrow = Some k2, wcolumn = Some name\<rparr>,
                  \<lparr>wmessage = Some ''was not in the range [0, 10)'', wvalue = PInt (- 3),
                    wrow = Some k3, wcolumn = Some name\<rparr>]))"
proof (intro conjI impI allI)
  fix ks a b
  assume "series_values s = map PInt ks" and "\<forall>k \<in> set ks. is_int64 k"
    and "is_int64 a" and "is_int64 b"
  then show "validate pd (InRangeValidation (Fin a) (Fin b) msg) s =
        Inr (keyed s (map (\<lambda>k. a \<le> k \<and> k < b) ks))"
    using in_range_ints [of s ks "Fin a" "\<lambda>k. a \<le> k" "Fin b" "\<lambda>k. k < b" pd msg] by simp
next
  show "InRangeValidation_init None None msg = InRangeValidation NegInf PosInf msg"
    by (simp add: InRangeValidation_init_def)
next
  fix ks
  assume "series_values s = map PInt ks" and "\<forall>k \<in> set ks. is_int64 k"
  then show "validate pd (InRangeValidation_init None None msg) s =
        Inr (keyed s (map (\<lambda>k. True) ks))"
    using in_range_ints [of s ks NegInf "\<lambda>k. True" PosInf "\<lambda>k. True" pd msg]
    by (simp add: InRangeValidation_init_def)
next
  fix name :: string and k1 k2 k3 :: row_key
  assume "distinct [k1, k2, k3]"
  then show "get_errors pd (InRangeValidation_init (Some (Fin 0)) (Some (Fin 10)) None)
        \<lparr>series_name = name, series_index = [k1, k2, k3],
          series_values = [PInt 5, PInt 15, PInt (- 3)]\<rparr> col =
        (if allow_empty col then Inl AttributeError
         else Inr [\<lparr>wmessage = Some ''was not in the range [0, 10)'', wvalue = PInt 15,
                    wrow = Some k2, wcolumn = Some name\<rparr>,
                  \<lparr>wmessage = Some ''was not in the range [0, 10)'', wvalue = PInt (- 3),
                    wrow = Some k3, wcolumn = Some name\<rparr>])"
    by (simp add: get_errors_def validated_mask_def unicode_len_def InRangeValidation_init_def
        to_numeric_def in_range_values_def is_int64_def keyed_def mask_not_def
        index_getitem_def series_getitem_def message.simps py_or_def
        str_of_int_def decimal.simps digit_char_def)
qed

theorem in_range_validate_witness:
  "series_values (range_series ''c'' [PInt 5, PInt 15, PInt (- 3)]) = map PInt [5, 15, - 3] \<and>
   is_int64 5 \<and> is_int64 15 \<and> is_int64 (- 3) \<and> is_int64 0 \<and> is_int64 10 \<and>
   validate example_pandas range_0_10 (range_series ''c'' [PInt 5, PInt 15, PInt (- 3)]) =
     Inr [(0, True), (1, False), (2, False)] \<and>
   validate example_pandas (InRangeValidation_init None None None)
     (range_series ''c'' [PInt 5, PInt 15, PInt (- 3)]) =
     Inr [(0, True), (1, True), (2, True)] \<and>
   distinct [0 :: row_key, 1, 2] \<and>
   get_errors example_pandas (InRangeValidation_init (Some (Fin 0)) (Some (Fin 10)) None)
     (range_series ''c'' [PInt 5, PInt 15, PInt (- 3)]) \<lparr>allow_empty = False\<rparr> =
     Inr [\<lparr>wmessage = Some ''was not in the range [0, 10)'', wvalue = PInt 15,
            wrow = Some 1, wcolumn = Some ''c''\<rparr>,
          \<lparr>wmessage = Some ''was not in the range [0, 10)'', wvalue = PInt (- 3),
            wrow = Some 2, wcolumn = Some ''c''\<rparr>] \<and>
   get_errors example_pandas (InRangeValidation_init (Some (Fin 0)) (Some (Fin 10)) None)
     (range_series ''c'' [PInt 5, PInt 15, PInt (- 3)]) \<lparr>allow_empty = True\<rparr> =
     Inl AttributeError"
  using in_range_validate [of "range_series ''c'' [PInt 5, PInt 15, PInt (- 3)]"
      example_pandas None "\<lparr>allow_empty = False\<rparr>"]
    in_range_validate [of "range_series ''c'' [PInt 5, PInt 15, PInt (- 3)]"
      example_pandas None "\<lparr>allow_empty = True\<rparr>"]
  by (simp add: range_series_def range_0_10_def to_numeric_def InRangeValidation_init_def
      in_range_values_def is_int64_def keyed_def mask_not_def get_errors_def validated_mask_def
      unicode_len_def index_getitem_def series_getitem_def message.simps py_or_def
      str_of_int_def decimal.simps digit_char_def)

end
